theory Spec2Isabelle
  imports Main "HOL-Library.Word"
begin

section \<open>The Wasmtime JNI bridge (wasmtime\_jni.c)\<close>

text \<open>
  The file \<^verbatim>\<open>src/native/wasmtime-android/src/wasmtime_jni.c\<close> exports six JNI entry
  points of the Java class \<^verbatim>\<open>com.builder.runtime.wasm.WasmRuntime\<close>. The file has no
  global variable and calls nothing but the Android log and three JNI string functions,
  so everything an entry point does is: append lines to the log, and return a value.

  The model passes the world explicitly. The world is an extensible record whose only
  named field is the log; whatever else the process holds (a handle table, an engine, the
  Java heap) lives in the extension part \<open>jni_world.more\<close>, which a function of the
  bridge can only leave alone or change, and the theorems say which.
\<close>

subsection \<open>Types of the boundary\<close>

type_synonym jlong = "64 word"      \<comment> \<open>JNI \<^verbatim>\<open>jlong\<close>: a 64-bit integer\<close>
type_synonym jbyte = "8 word"       \<comment> \<open>JNI \<^verbatim>\<open>jbyte\<close>\<close>
type_synonym jbyteArray = "jbyte list"
type_synonym jstring = string       \<comment> \<open>a non-null Java string, as its UTF-8 characters\<close>
type_synonym jobject = nat          \<comment> \<open>an opaque object reference\<close>

datatype android_LogPriority = ANDROID_LOG_INFO | ANDROID_LOG_ERROR

type_synonym log_line = "android_LogPriority \<times> string \<times> string"

record jni_world =
  logcat :: "log_line list"

subsection \<open>The logging macros\<close>

definition LOG_TAG :: string where
  "LOG_TAG = ''WasmtimeJNI''"

text \<open>
  \<^verbatim>\<open>#define LOGI(...) __android_log_print(ANDROID_LOG_INFO, LOG_TAG, __VA_ARGS__)\<close>
  The argument is the message after \<^verbatim>\<open>printf\<close> formatting; the callers below
  write the formatting out (\<^verbatim>\<open>%s\<close> is replaced by the string). A line of the
  model is the message as the bridge formats it; what the log transport does with a
  long line is outside the bridge.
\<close>

definition LOGI :: "string \<Rightarrow> 'a jni_world_scheme \<Rightarrow> 'a jni_world_scheme" where
  "LOGI msg w = w\<lparr>logcat := logcat w @ [(ANDROID_LOG_INFO, LOG_TAG, msg)]\<rparr>"

definition LOGE :: "string \<Rightarrow> 'a jni_world_scheme \<Rightarrow> 'a jni_world_scheme" where
  "LOGE msg w = w\<lparr>logcat := logcat w @ [(ANDROID_LOG_ERROR, LOG_TAG, msg)]\<rparr>"

subsection \<open>The JNI string functions the bridge calls\<close>

text \<open>
  \<^verbatim>\<open>GetStringUTFChars\<close> hands out the characters of a Java string,
  \<^verbatim>\<open>ReleaseStringUTFChars\<close> gives them back, \<^verbatim>\<open>NewStringUTF\<close> makes a Java string
  from C characters. The bridge checks none of their results, and the model takes the
  case in which they succeed, on a non-null string.
\<close>

definition GetStringUTFChars :: "jstring \<Rightarrow> string" where
  "GetStringUTFChars s = s"

definition NewStringUTF :: "string \<Rightarrow> jstring" where
  "NewStringUTF s = s"

subsection \<open>The six entry points\<close>

text \<open>
  \<^verbatim>\<open>Java_com_builder_runtime_wasm_WasmRuntime_loadModuleFromBytes\<close>: one log line,
  then \<^verbatim>\<open>return 0;\<close>. The bytes are not read.
\<close>

definition loadModuleFromBytes ::
  "jbyteArray \<Rightarrow> 'a jni_world_scheme \<Rightarrow> jlong \<times> 'a jni_world_scheme" where
  "loadModuleFromBytes wasm_bytes w =
     (let w1 = LOGI ''loadModuleFromBytes called (stub implementation)'' w
      in (0, w1))"

text \<open>
  \<^verbatim>\<open>Java_com_builder_runtime_wasm_WasmRuntime_instantiate\<close>: logs the call, logs the
  configuration string, then \<^verbatim>\<open>return 0;\<close>. The module handle is not read.
\<close>

definition instantiate ::
  "jlong \<Rightarrow> jstring \<Rightarrow> 'a jni_world_scheme \<Rightarrow> jlong \<times> 'a jni_world_scheme" where
  "instantiate module_handle wasi_config_json w =
     (let w1 = LOGI ''instantiate called (stub implementation)'' w;
          config = GetStringUTFChars wasi_config_json;
          w2 = LOGI (''WASI config: '' @ config) w1
      in (0, w2))"

text \<open>
  \<^verbatim>\<open>Java_com_builder_runtime_wasm_WasmRuntime_call\<close>: logs the call, logs the function
  name and the arguments, then returns a new Java string made from a string literal.
  The instance handle is not read.
\<close>

definition stub_result :: string where
  \<open>stub_result = ''{"result":"stub"}''\<close>

definition call ::
  "jlong \<Rightarrow> jstring \<Rightarrow> jstring \<Rightarrow> 'a jni_world_scheme \<Rightarrow> jstring \<times> 'a jni_world_scheme" where
  "call instance_handle function_name args_json w =
     (let w1 = LOGI ''call called (stub implementation)'' w;
          func_name = GetStringUTFChars function_name;
          args = GetStringUTFChars args_json;
          w2 = LOGI (''Calling function: '' @ func_name @ '' with args: '' @ args) w1
      in (NewStringUTF stub_result, w2))"

text \<open>
  \<^verbatim>\<open>Java_com_builder_runtime_wasm_WasmRuntime_destroyInstance\<close> and
  \<^verbatim>\<open>..._destroyModule\<close>: one log line each, and the function ends. They return
  \<^verbatim>\<open>void\<close>, so the model returns the world alone.
\<close>

definition destroyInstance :: "jlong \<Rightarrow> 'a jni_world_scheme \<Rightarrow> 'a jni_world_scheme" where
  "destroyInstance instance_handle w = LOGI ''destroyInstance called (stub implementation)'' w"

definition destroyModule :: "jlong \<Rightarrow> 'a jni_world_scheme \<Rightarrow> 'a jni_world_scheme" where
  "destroyModule module_handle w = LOGI ''destroyModule called (stub implementation)'' w"

text \<open>
  \<^verbatim>\<open>Java_com_builder_runtime_wasm_WasmRuntime_loadModule\<close>: one log line, then
  \<^verbatim>\<open>return 0;\<close>. The file object is not read.
\<close>

definition loadModule :: "jobject \<Rightarrow> 'a jni_world_scheme \<Rightarrow> jlong \<times> 'a jni_world_scheme" where
  "loadModule wasm_file w =
     (let w1 = LOGI ''loadModule called (stub implementation)'' w
      in (0, w1))"

subsection \<open>Running entry points one after another\<close>

text \<open>
  The Java side calls the entry points in some order. An invocation is an entry point
  with its arguments; \<open>jni_invoke\<close> dispatches it, as the JVM does by name, and
  \<open>jni_run\<close> runs a list of invocations from left to right, threading the world and
  collecting what each returned.
\<close>

datatype jni_op =
    LoadModuleFromBytes jbyteArray
  | LoadModule jobject
  | Instantiate jlong jstring
  | Call jlong jstring jstring
  | DestroyInstance jlong
  | DestroyModule jlong

datatype jni_ret = RetLong jlong | RetString jstring | RetVoid

fun jni_invoke :: "jni_op \<Rightarrow> 'a jni_world_scheme \<Rightarrow> jni_ret \<times> 'a jni_world_scheme" where
  "jni_invoke (LoadModuleFromBytes bs) w =
     (case loadModuleFromBytes bs w of (h, w') \<Rightarrow> (RetLong h, w'))"
| "jni_invoke (LoadModule file) w =
     (case loadModule file w of (h, w') \<Rightarrow> (RetLong h, w'))"
| "jni_invoke (Instantiate h cfg) w =
     (case instantiate h cfg w of (h', w') \<Rightarrow> (RetLong h', w'))"
| "jni_invoke (Call h f a) w =
     (case call h f a w of (r, w') \<Rightarrow> (RetString r, w'))"
| "jni_invoke (DestroyInstance h) w = (RetVoid, destroyInstance h w)"
| "jni_invoke (DestroyModule h) w = (RetVoid, destroyModule h w)"

fun jni_run :: "jni_op list \<Rightarrow> 'a jni_world_scheme \<Rightarrow> jni_ret list \<times> 'a jni_world_scheme" where
  "jni_run [] w = ([], w)"
| "jni_run (op # ops) w =
     (case jni_invoke op w of
        (r, w1) \<Rightarrow> (case jni_run ops w1 of (rs, w2) \<Rightarrow> (r # rs, w2)))"

text \<open>The lines an operation on the world has written: the log beyond its old length.\<close>

definition written :: "'a jni_world_scheme \<Rightarrow> 'a jni_world_scheme \<Rightarrow> log_line list" where
  "written w w' = drop (length (logcat w)) (logcat w')"

text \<open>
  The path of the specification's control flow: load the bytes, instantiate the handle
  that came back, call on the handle that came back from that.
\<close>

definition load_instantiate ::
  "jbyteArray \<Rightarrow> jstring \<Rightarrow> 'a jni_world_scheme \<Rightarrow> jlong \<times> jlong \<times> 'a jni_world_scheme" where
  "load_instantiate bs cfg w =
     (case loadModuleFromBytes bs w of
        (hm, w1) \<Rightarrow> (case instantiate hm cfg w1 of (hi, w2) \<Rightarrow> (hm, hi, w2)))"

definition load_instantiate_call ::
  "jbyteArray \<Rightarrow> jstring \<Rightarrow> jstring \<Rightarrow> jstring \<Rightarrow> 'a jni_world_scheme
     \<Rightarrow> jstring \<times> 'a jni_world_scheme" where
  "load_instantiate_call bs cfg f a w =
     (case load_instantiate bs cfg w of (hm, hi, w2) \<Rightarrow> call hi f a w2)"

subsection \<open>How an entry point can report a failure\<close>

text \<open>
  A native method has three ways to tell its caller that it failed: the value it
  returns, a Java exception that it raises through its \<^verbatim>\<open>JNIEnv\<close> (\<^verbatim>\<open>ThrowNew\<close>
  leaves the exception pending, with its class and its message), and a line in the log.
  The environment extends the world by the pending exception. The entry points above
  are defined on every extension of the world, so on the environment too; none of
  them calls \<^verbatim>\<open>Throw\<close> or \<^verbatim>\<open>ThrowNew\<close>, and none of them uses \<^verbatim>\<open>LOGE\<close>.
\<close>

record jni_env = jni_world +
  pending_exception :: "(string \<times> string) option"

text \<open>
  These definitions follow the words of the specification, not the source: an
  operation ``fails with'' an error kind of the taxonomy. Read in the widest way, the
  kind is reported when its name occurs in the class or the message of the exception
  pending afterwards, or in a line the operation wrote to the log.
\<close>

fun mentions :: "string \<Rightarrow> string \<Rightarrow> bool" where
  "mentions k [] = (k = [])"
| "mentions k (c # cs) = (take (length k) (c # cs) = k \<or> mentions k cs)"

fun any_line_mentions :: "string \<Rightarrow> log_line list \<Rightarrow> bool" where
  "any_line_mentions k [] = False"
| "any_line_mentions k ((p, t, m) # ls) = (mentions k m \<or> any_line_mentions k ls)"

definition spec_error_reported ::
  "string \<Rightarrow> 'a jni_env_scheme \<Rightarrow> 'a jni_env_scheme \<Rightarrow> bool" where
  "spec_error_reported kind w w' =
     ((case pending_exception w' of
         None \<Rightarrow> False
       | Some (cls, msg) \<Rightarrow> mentions kind cls \<or> mentions kind msg)
      \<or> any_line_mentions kind (written w w'))"

section \<open>JSON documents\<close>

text \<open>
  The specification describes what \<open>call\<close> returns as a JSON document of one of two
  shapes. To say what shape a returned string has, the string is read as JSON. The
  reader below covers objects, arrays, strings with the one-character escapes, the
  three literals, and numbers (kept as their text). Nesting is bounded by fuel; a
  string of \<open>n\<close> characters gets \<open>n + 1\<close>.
\<close>

datatype json =
    JNull
  | JBool bool
  | JNumber string
  | JString string
  | JArray "json list"
  | JObject "(string \<times> json) list"

definition is_ws :: "char \<Rightarrow> bool" where
  "is_ws c = (c = CHR '' '' \<or> c = CHR 0x0A \<or> c = CHR 0x0D \<or> c = CHR 0x09)"

definition skip_ws :: "string \<Rightarrow> string" where
  "skip_ws s = dropWhile is_ws s"

definition unescape :: "char \<Rightarrow> char option" where
  \<open>unescape e =
     (if e = CHR ''"'' \<or> e = CHR 0x5C \<or> e = CHR ''/'' then Some e
      else if e = CHR ''n'' then Some (CHR 0x0A)
      else if e = CHR ''r'' then Some (CHR 0x0D)
      else if e = CHR ''t'' then Some (CHR 0x09)
      else if e = CHR ''b'' then Some (CHR 0x08)
      else if e = CHR ''f'' then Some (CHR 0x0C)
      else None)\<close>

text \<open>The characters of a string, read from behind its opening quote to its closing one.\<close>

fun parse_chars :: "string \<Rightarrow> (string \<times> string) option" where
  "parse_chars [] = None"
| \<open>parse_chars (c # cs) =
     (if c = CHR ''"'' then Some ([], cs)
      else if c = CHR 0x5C then
        (case cs of
           [] \<Rightarrow> None
         | e # r \<Rightarrow>
             (case unescape e of
                None \<Rightarrow> None
              | Some x \<Rightarrow>
                  (case parse_chars r of
                     None \<Rightarrow> None
                   | Some (s, rest) \<Rightarrow> Some (x # s, rest))))
      else
        (case parse_chars cs of
           None \<Rightarrow> None
         | Some (s, rest) \<Rightarrow> Some (c # s, rest)))\<close>

definition is_number_char :: "char \<Rightarrow> bool" where
  "is_number_char c = (c \<in> set ''-+.eE0123456789'')"

definition parse_literal :: "string \<Rightarrow> (json \<times> string) option" where
  "parse_literal s =
     (if take 4 s = ''true'' then Some (JBool True, drop 4 s)
      else if take 5 s = ''false'' then Some (JBool False, drop 5 s)
      else if take 4 s = ''null'' then Some (JNull, drop 4 s)
      else if takeWhile is_number_char s = [] then None
      else Some (JNumber (takeWhile is_number_char s), dropWhile is_number_char s))"

fun parse_value :: "nat \<Rightarrow> string \<Rightarrow> (json \<times> string) option"
  and parse_elements :: "nat \<Rightarrow> string \<Rightarrow> (json list \<times> string) option"
  and parse_members :: "nat \<Rightarrow> string \<Rightarrow> ((string \<times> json) list \<times> string) option" where
  "parse_value 0 s = None"
| \<open>parse_value (Suc n) s =
     (case skip_ws s of
        [] \<Rightarrow> None
      | c # r \<Rightarrow>
          if c = CHR ''{'' then
            (if take 1 (skip_ws r) = ''}'' then Some (JObject [], drop 1 (skip_ws r))
             else (case parse_members n r of
                     None \<Rightarrow> None
                   | Some (ms, r') \<Rightarrow> Some (JObject ms, r')))
          else if c = CHR ''['' then
            (if take 1 (skip_ws r) = '']'' then Some (JArray [], drop 1 (skip_ws r))
             else (case parse_elements n r of
                     None \<Rightarrow> None
                   | Some (vs, r') \<Rightarrow> Some (JArray vs, r')))
          else if c = CHR ''"'' then
            (case parse_chars r of
               None \<Rightarrow> None
             | Some (str, r') \<Rightarrow> Some (JString str, r'))
          else parse_literal (c # r))\<close>
| "parse_elements 0 s = None"
| \<open>parse_elements (Suc n) s =
     (case parse_value n s of
        None \<Rightarrow> None
      | Some (v, r) \<Rightarrow>
          (case skip_ws r of
             [] \<Rightarrow> None
           | c # r' \<Rightarrow>
               if c = CHR '','' then
                 (case parse_elements n r' of
                    None \<Rightarrow> None
                  | Some (vs, r'') \<Rightarrow> Some (v # vs, r''))
               else if c = CHR '']'' then Some ([v], r')
               else None))\<close>
| "parse_members 0 s = None"
| \<open>parse_members (Suc n) s =
     (case skip_ws s of
        [] \<Rightarrow> None
      | q # r \<Rightarrow>
          if q = CHR ''"'' then
            (case parse_chars r of
               None \<Rightarrow> None
             | Some (k, r1) \<Rightarrow>
                 (case skip_ws r1 of
                    [] \<Rightarrow> None
                  | c1 # r2 \<Rightarrow>
                      if c1 = CHR '':'' then
                        (case parse_value n r2 of
                           None \<Rightarrow> None
                         | Some (v, r3) \<Rightarrow>
                             (case skip_ws r3 of
                                [] \<Rightarrow> None
                              | c2 # r4 \<Rightarrow>
                                  if c2 = CHR '','' then
                                    (case parse_members n r4 of
                                       None \<Rightarrow> None
                                     | Some (ms, r5) \<Rightarrow> Some ((k, v) # ms, r5))
                                  else if c2 = CHR ''}'' then Some ([(k, v)], r4)
                                  else None))
                      else None))
          else None)\<close>

definition parse_json :: "string \<Rightarrow> json option" where
  "parse_json s =
     (case parse_value (Suc (length s)) s of
        None \<Rightarrow> None
      | Some (j, rest) \<Rightarrow> if skip_ws rest = [] then Some j else None)"

subsection \<open>The two result shapes of the specification\<close>

text \<open>
  These definitions follow the words of the specification, not the source:
  ``result is \<^verbatim>\<open>{"ok": true, "values":[...]}\<close> or
  \<^verbatim>\<open>{"ok": false, "kind": string, "message": string}\<close>''. A document has a shape
  when it is an object with those members of those types; further members are let
  through, so that failing to have a shape is failing it in the widest reading.
\<close>

definition member :: "json \<Rightarrow> string \<Rightarrow> json option" where
  "member j k = (case j of JObject ms \<Rightarrow> map_of ms k | _ \<Rightarrow> None)"

definition spec_values_of :: "json \<Rightarrow> json list option" where
  "spec_values_of j =
     (if member j ''ok'' = Some (JBool True)
      then (case member j ''values'' of Some (JArray vs) \<Rightarrow> Some vs | _ \<Rightarrow> None)
      else None)"

definition spec_kind_of :: "json \<Rightarrow> string option" where
  "spec_kind_of j =
     (if member j ''ok'' = Some (JBool False)
      then (case (member j ''kind'', member j ''message'') of
              (Some (JString k), Some (JString m)) \<Rightarrow> Some k
            | _ \<Rightarrow> None)
      else None)"

text \<open>The values of a success document, and the kind of a failure document.\<close>

definition spec_success_values :: "string \<Rightarrow> json list option" where
  "spec_success_values doc =
     (case parse_json doc of None \<Rightarrow> None | Some j \<Rightarrow> spec_values_of j)"

definition spec_failure_kind :: "string \<Rightarrow> string option" where
  "spec_failure_kind doc =
     (case parse_json doc of None \<Rightarrow> None | Some j \<Rightarrow> spec_kind_of j)"

definition spec_result_shape :: "string \<Rightarrow> bool" where
  "spec_result_shape doc =
     (case spec_success_values doc of
        Some vs \<Rightarrow> True
      | None \<Rightarrow> (case spec_failure_kind doc of Some k \<Rightarrow> True | None \<Rightarrow> False))"

section \<open>Concrete inputs\<close>

text \<open>
  The binary encoding of the module
  \<^verbatim>\<open>(module (func (export "add") (param i32 i32) (result i32)
       local.get 0 local.get 1 i32.add))\<close>:
  the header, then the type, function, export and code sections.
\<close>

definition add_wasm :: jbyteArray where
  "add_wasm =
     [0x00, 0x61, 0x73, 0x6D, 0x01, 0x00, 0x00, 0x00,
      0x01, 0x07, 0x01, 0x60, 0x02, 0x7F, 0x7F, 0x01, 0x7F,
      0x03, 0x02, 0x01, 0x00,
      0x07, 0x07, 0x01, 0x03, 0x61, 0x64, 0x64, 0x00, 0x00,
      0x0A, 0x09, 0x01, 0x07, 0x00, 0x20, 0x00, 0x20, 0x01, 0x6A, 0x0B]"

text \<open>
  The header check of the specification's Module Loader (``validates the WASM binary
  format header''), in the specification's words and not in the source: the four
  magic bytes \<^verbatim>\<open>\0asm\<close> and version 1.
\<close>

definition spec_wasm_header_ok :: "jbyteArray \<Rightarrow> bool" where
  "spec_wasm_header_ok bs = (take 8 bs = [0x00, 0x61, 0x73, 0x6D, 0x01, 0x00, 0x00, 0x00])"

text \<open>
  The default configuration: every key of the WasiConfig schema is optional, so the
  default document is the empty object.
\<close>

definition default_config :: jstring where
  "default_config = ''{}''"

definition empty_world :: jni_world where
  "empty_world = \<lparr>logcat = []\<rparr>"

text \<open>The environment before anything ran: an empty log and no exception pending.\<close>

definition empty_env :: jni_env where
  "empty_env = \<lparr>logcat = [], pending_exception = None\<rparr>"

section \<open>64-bit integers as decimal strings\<close>

text \<open>
  Modelled from the spec: the encoding of a 64-bit integer result as a decimal string
  and its re-parsing. The bridge under \<^verbatim>\<open>src/\<close> marshals no value (\<open>call\<close> returns a
  constant), so the encoder and the parser are written from the specification's words:
  ``64-bit integer values are encoded as decimal strings'' and ``re-parsing it recovers
  the exact original value for the full signed 64-bit range''. The encoder writes the
  signed value in base ten, a minus sign first when it is negative and no leading zero;
  the parser reads an optional minus sign and a non-empty run of decimal digits, and
  refuses a value outside the signed 64-bit range.
\<close>

definition digit_char :: "nat \<Rightarrow> char" where
  "digit_char d = char_of (48 + d)"

fun dec_digits :: "nat \<Rightarrow> string" where
  "dec_digits n =
     (if n < 10 then [digit_char n] else dec_digits (n div 10) @ [digit_char (n mod 10)])"

declare dec_digits.simps [simp del]

definition encode_i64 :: "64 word \<Rightarrow> string" where
  "encode_i64 v =
     (if sint v < 0 then CHR ''-'' # dec_digits (nat (- sint v))
      else dec_digits (nat (sint v)))"

definition is_digit :: "char \<Rightarrow> bool" where
  "is_digit c = (48 \<le> (of_char c :: nat) \<and> (of_char c :: nat) \<le> 57)"

definition digit_value :: "char \<Rightarrow> nat" where
  "digit_value c = of_char c - 48"

fun all_digits :: "string \<Rightarrow> bool" where
  "all_digits [] = True"
| "all_digits (c # cs) = (is_digit c \<and> all_digits cs)"

definition parse_digits :: "string \<Rightarrow> nat option" where
  "parse_digits s =
     (if s = [] then None
      else if all_digits s then Some (foldl (\<lambda>acc c. acc * 10 + digit_value c) 0 s)
      else None)"

definition parse_i64 :: "string \<Rightarrow> 64 word option" where
  "parse_i64 s =
     (case s of
        [] \<Rightarrow> None
      | c # r \<Rightarrow>
          if c = CHR ''-'' then
            (case parse_digits r of
               None \<Rightarrow> None
             | Some n \<Rightarrow> if n \<le> 2 ^ 63 then Some (word_of_int (- int n)) else None)
          else
            (case parse_digits s of
               None \<Rightarrow> None
             | Some n \<Rightarrow> if n < 2 ^ 63 then Some (word_of_nat n) else None))"

text \<open>
  The success document that carries one 64-bit value, in the specification's shape
  \<^verbatim>\<open>{"ok":true,"values":["<decimal>"]}\<close>, and the reading of the first value back
  out of a document.
\<close>

definition encode_i64_document :: "64 word \<Rightarrow> string" where
  \<open>encode_i64_document v = ''{"ok":true,"values":["'' @ encode_i64 v @ ''"]}''\<close>

definition parse_i64_document :: "string \<Rightarrow> 64 word option" where
  "parse_i64_document doc =
     (case spec_success_values doc of
        Some [JString s] \<Rightarrow> parse_i64 s
      | _ \<Rightarrow> None)"

section \<open>Basic facts about the entry points\<close>

subsection \<open>What each entry point returns and writes\<close>

lemma logcat_LOGI: "logcat (LOGI msg w) = logcat w @ [(ANDROID_LOG_INFO, LOG_TAG, msg)]"
  by (simp add: LOGI_def)

lemma more_LOGI: "jni_world.more (LOGI msg w) = jni_world.more w"
  by (simp add: LOGI_def)

lemma fst_loadModuleFromBytes: "fst (loadModuleFromBytes bs w) = 0"
  by (simp add: loadModuleFromBytes_def)

lemma snd_loadModuleFromBytes:
  "snd (loadModuleFromBytes bs w) = LOGI ''loadModuleFromBytes called (stub implementation)'' w"
  by (simp add: loadModuleFromBytes_def)

lemma fst_loadModule: "fst (loadModule file w) = 0"
  by (simp add: loadModule_def)

lemma snd_loadModule:
  "snd (loadModule file w) = LOGI ''loadModule called (stub implementation)'' w"
  by (simp add: loadModule_def)

lemma fst_instantiate: "fst (instantiate h cfg w) = 0"
  by (simp add: instantiate_def)

lemma snd_instantiate:
  "snd (instantiate h cfg w) =
     LOGI (''WASI config: '' @ cfg) (LOGI ''instantiate called (stub implementation)'' w)"
  by (simp add: instantiate_def GetStringUTFChars_def)

lemma fst_call: "fst (call h f a w) = stub_result"
  by (simp add: call_def NewStringUTF_def)

lemma snd_call:
  "snd (call h f a w) =
     LOGI (''Calling function: '' @ f @ '' with args: '' @ a)
       (LOGI ''call called (stub implementation)'' w)"
  by (simp add: call_def GetStringUTFChars_def)

lemma fst_load_instantiate_call: "fst (load_instantiate_call bs cfg f a w) = stub_result"
  by (simp add: load_instantiate_call_def load_instantiate_def fst_call split: prod.splits)

lemma load_instantiate_handles:
  "fst (load_instantiate bs cfg w) = 0" "fst (snd (load_instantiate bs cfg w)) = 0"
  by (simp_all add: load_instantiate_def loadModuleFromBytes_def instantiate_def)

subsection \<open>Reading the stub result as JSON\<close>

lemma parse_json_stub: "parse_json stub_result = Some (JObject [(''result'', JString ''stub'')])"
  by (simp add: stub_result_def parse_json_def skip_ws_def is_ws_def parse_literal_def)

lemma success_values_stub: "spec_success_values stub_result = None"
  by (simp add: spec_success_values_def parse_json_stub spec_values_of_def member_def)

lemma failure_kind_stub: "spec_failure_kind stub_result = None"
  by (simp add: spec_failure_kind_def parse_json_stub spec_kind_of_def member_def)

subsection \<open>Sequences of entry points\<close>

lemma fst_jni_run_Cons:
  "fst (jni_run (op # ops) w) = fst (jni_invoke op w) # fst (jni_run ops (snd (jni_invoke op w)))"
  by (simp split: prod.splits)

lemma snd_jni_run_Cons:
  "snd (jni_run (op # ops) w) = snd (jni_run ops (snd (jni_invoke op w)))"
  by (simp split: prod.splits)

text \<open>What an entry point returns does not depend on the world it runs in.\<close>

lemma jni_invoke_ret: "fst (jni_invoke op w) = fst (jni_invoke op w')"
  by (cases op)
    (simp_all add: loadModuleFromBytes_def loadModule_def instantiate_def call_def)

lemma jni_run_ret: "fst (jni_run ops w) = fst (jni_run ops w')"
proof (induction ops arbitrary: w w')
  case Nil
  show ?case by simp
next
  case (Cons op ops)
  have "fst (jni_run ops (snd (jni_invoke op w))) = fst (jni_run ops (snd (jni_invoke op w')))"
    by (rule Cons.IH)
  then show ?case
    using jni_invoke_ret [of op w w'] by (simp only: fst_jni_run_Cons)
qed

text \<open>An entry point appends to the log, and what it appends does not depend on the world.\<close>

lemma jni_invoke_writes:
  "\<exists>ls. \<forall>w :: 'a jni_world_scheme. logcat (snd (jni_invoke op w)) = logcat w @ ls"
proof (cases op)
  case (LoadModuleFromBytes bs)
  show ?thesis unfolding LoadModuleFromBytes
    by (rule exI [of _ "[(ANDROID_LOG_INFO, LOG_TAG,
          ''loadModuleFromBytes called (stub implementation)'')]"])
      (simp add: loadModuleFromBytes_def logcat_LOGI)
next
  case (LoadModule obj)
  show ?thesis unfolding LoadModule
    by (rule exI [of _ "[(ANDROID_LOG_INFO, LOG_TAG, ''loadModule called (stub implementation)'')]"])
      (simp add: loadModule_def logcat_LOGI)
next
  case (Instantiate h cfg)
  show ?thesis unfolding Instantiate
    by (rule exI [of _ "[(ANDROID_LOG_INFO, LOG_TAG, ''instantiate called (stub implementation)''),
          (ANDROID_LOG_INFO, LOG_TAG, ''WASI config: '' @ cfg)]"])
      (simp add: instantiate_def GetStringUTFChars_def logcat_LOGI)
next
  case (Call h f a)
  show ?thesis unfolding Call
    by (rule exI [of _ "[(ANDROID_LOG_INFO, LOG_TAG, ''call called (stub implementation)''),
          (ANDROID_LOG_INFO, LOG_TAG, ''Calling function: '' @ f @ '' with args: '' @ a)]"])
      (simp add: call_def GetStringUTFChars_def logcat_LOGI)
next
  case (DestroyInstance h)
  show ?thesis unfolding DestroyInstance
    by (rule exI [of _ "[(ANDROID_LOG_INFO, LOG_TAG,
          ''destroyInstance called (stub implementation)'')]"])
      (simp add: destroyInstance_def logcat_LOGI)
next
  case (DestroyModule h)
  show ?thesis unfolding DestroyModule
    by (rule exI [of _ "[(ANDROID_LOG_INFO, LOG_TAG,
          ''destroyModule called (stub implementation)'')]"])
      (simp add: destroyModule_def logcat_LOGI)
qed

lemma jni_run_writes:
  "\<exists>ls. \<forall>w :: 'a jni_world_scheme. logcat (snd (jni_run ops w)) = logcat w @ ls"
proof (induction ops)
  case Nil
  show ?case by simp
next
  case (Cons op ops)
  obtain l1 where l1: "\<And>w :: 'a jni_world_scheme. logcat (snd (jni_invoke op w)) = logcat w @ l1"
    using jni_invoke_writes [of op] by blast
  obtain l2 where l2: "\<And>w :: 'a jni_world_scheme. logcat (snd (jni_run ops w)) = logcat w @ l2"
    using Cons.IH by blast
  have "\<forall>w :: 'a jni_world_scheme. logcat (snd (jni_run (op # ops) w)) = logcat w @ (l1 @ l2)"
    by (simp only: snd_jni_run_Cons l1 l2 append_assoc) simp
  then show ?case by (rule exI)
qed

lemma written_jni_run:
  fixes w w' :: "'a jni_world_scheme"
  shows "written w (snd (jni_run ops w)) = written w' (snd (jni_run ops w'))"
proof -
  obtain ls where ls: "\<And>v :: 'a jni_world_scheme. logcat (snd (jni_run ops v)) = logcat v @ ls"
    using jni_run_writes [of ops] by blast
  show ?thesis by (simp add: written_def ls)
qed

text \<open>No entry point touches the part of the world that is not the log.\<close>

lemma more_jni_invoke: "jni_world.more (snd (jni_invoke op w)) = jni_world.more w"
  by (cases op)
    (simp_all add: loadModuleFromBytes_def loadModule_def instantiate_def call_def
      destroyInstance_def destroyModule_def more_LOGI)

lemma more_jni_run: "jni_world.more (snd (jni_run ops w)) = jni_world.more w"
proof (induction ops arbitrary: w)
  case Nil
  show ?case by simp
next
  case (Cons op ops)
  show ?case by (simp only: snd_jni_run_Cons Cons.IH more_jni_invoke)
qed

subsection \<open>Decimal digits\<close>

lemma digit_value_char: "d < 10 \<Longrightarrow> digit_value (digit_char d) = d"
  by (simp add: digit_value_def digit_char_def)

lemma is_digit_char: "d < 10 \<Longrightarrow> is_digit (digit_char d)"
  by (simp add: is_digit_def digit_char_def)

lemma digit_char_not_minus: "d < 10 \<Longrightarrow> digit_char d \<noteq> CHR ''-''"
proof
  assume d: "d < 10" and eq: "digit_char d = CHR ''-''"
  from eq have "(of_char (digit_char d) :: nat) = of_char (CHR ''-'')" by simp
  with d show False by (simp add: digit_char_def)
qed

lemma all_digits_append: "all_digits (xs @ ys) = (all_digits xs \<and> all_digits ys)"
  by (induction xs) auto

lemma dec_digits_nonempty: "dec_digits n \<noteq> []"
  by (subst dec_digits.simps) simp

lemma all_digits_dec: "all_digits (dec_digits n)"
proof (induction n rule: dec_digits.induct)
  case (1 n)
  show ?case
  proof (cases "n < 10")
    case True
    then show ?thesis by (subst dec_digits.simps) (simp add: is_digit_char)
  next
    case False
    with 1 show ?thesis
      by (subst dec_digits.simps) (simp add: all_digits_append is_digit_char)
  qed
qed

lemma foldl_dec: "foldl (\<lambda>acc c. acc * 10 + digit_value c) 0 (dec_digits n) = n"
proof (induction n rule: dec_digits.induct)
  case (1 n)
  show ?case
  proof (cases "n < 10")
    case True
    then show ?thesis by (subst dec_digits.simps) (simp add: digit_value_char)
  next
    case False
    with 1 show ?thesis
      by (subst dec_digits.simps) (simp add: digit_value_char)
  qed
qed

lemma parse_digits_dec: "parse_digits (dec_digits n) = Some n"
  by (simp add: parse_digits_def dec_digits_nonempty all_digits_dec foldl_dec)

lemma dec_digits_hd: "hd (dec_digits n) \<noteq> CHR ''-''"
proof (induction n rule: dec_digits.induct)
  case (1 n)
  show ?case
  proof (cases "n < 10")
    case True
    then show ?thesis by (subst dec_digits.simps) (simp add: digit_char_not_minus)
  next
    case False
    with 1 show ?thesis
      by (subst dec_digits.simps) (simp add: dec_digits_nonempty)
  qed
qed

lemma parse_encode_i64: "parse_i64 (encode_i64 v) = Some v"
proof (cases "sint v < 0")
  case True
  have "- (2 ^ 63) \<le> sint v" using sint_ge [of v] by simp
  then have "nat (- sint v) \<le> 2 ^ 63" by simp
  moreover have "word_of_int (- int (nat (- sint v))) = v" using True by simp
  ultimately show ?thesis using True
    by (simp add: parse_i64_def encode_i64_def parse_digits_dec)
next
  case False
  have "sint v < 2 ^ 63" using sint_lt [of v] by simp
  then have b: "nat (sint v) < 2 ^ 63" using False by simp
  have w: "word_of_nat (nat (sint v)) = v" using False by simp
  obtain c r where cr: "dec_digits (nat (sint v)) = c # r"
    using dec_digits_nonempty [of "nat (sint v)"] by (cases "dec_digits (nat (sint v))") auto
  have "c \<noteq> CHR ''-''" using dec_digits_hd [of "nat (sint v)"] cr by simp
  then show ?thesis using False b w cr parse_digits_dec [of "nat (sint v)"]
    by (simp add: parse_i64_def encode_i64_def)
qed

subsection \<open>Reading the document of a 64-bit value\<close>

lemma is_digit_plain: \<open>is_digit c \<Longrightarrow> c \<noteq> CHR ''"'' \<and> c \<noteq> CHR 0x5C\<close>
  by (auto simp: is_digit_def)

lemma parse_chars_digits:
  \<open>all_digits s \<Longrightarrow> parse_chars (s @ CHR ''"'' # r) = Some (s, r)\<close>
proof (induction s)
  case Nil
  show ?case by simp
next
  case (Cons c s)
  then have "is_digit c" "all_digits s" by simp_all
  with Cons.IH is_digit_plain [of c] show ?case by simp
qed

lemma parse_chars_encode:
  \<open>parse_chars (encode_i64 v @ CHR ''"'' # r) = Some (encode_i64 v, r)\<close>
proof (cases "sint v < 0")
  case True
  then have e: "encode_i64 v = CHR ''-'' # dec_digits (nat (- sint v))"
    by (simp add: encode_i64_def)
  show ?thesis unfolding e
    using parse_chars_digits [OF all_digits_dec, of "nat (- sint v)" r] by simp
next
  case False
  then have e: "encode_i64 v = dec_digits (nat (sint v))"
    by (simp add: encode_i64_def)
  show ?thesis unfolding e by (rule parse_chars_digits [OF all_digits_dec])
qed

lemma parse_members_values:
  \<open>parse_members (Suc (Suc (Suc (Suc n)))) (''"values":["'' @ encode_i64 v @ ''"]}'')
   = Some ([(''values'', JArray [JString (encode_i64 v)])], [])\<close>
  by (simp add: skip_ws_def is_ws_def parse_chars_encode)

lemma parse_value_document:
  \<open>parse_value (Suc (Suc (Suc (Suc (Suc (Suc n))))))
      (''{"ok":true,"values":["'' @ encode_i64 v @ ''"]}'')
   = Some (JObject [(''ok'', JBool True), (''values'', JArray [JString (encode_i64 v)])], [])\<close>
  using parse_members_values [of n v]
  by (simp add: skip_ws_def is_ws_def parse_literal_def)

lemma success_values_document:
  \<open>spec_success_values (encode_i64_document v) = Some [JString (encode_i64 v)]\<close>
proof -
  have \<open>Suc (length (encode_i64_document v))
          = Suc (Suc (Suc (Suc (Suc (Suc (length (encode_i64 v) + 20))))))\<close>
    by (simp add: encode_i64_document_def)
  then have \<open>parse_value (Suc (length (encode_i64_document v))) (encode_i64_document v)
     = Some (JObject [(''ok'', JBool True), (''values'', JArray [JString (encode_i64 v)])], [])\<close>
    using parse_value_document [of "length (encode_i64 v) + 20" v]
    by (simp only: encode_i64_document_def)
  then show ?thesis
    by (simp add: spec_success_values_def parse_json_def skip_ws_def spec_values_of_def member_def)
qed

subsection \<open>What the destroy functions write\<close>

lemma written_LOGI: "written w (LOGI msg w) = [(ANDROID_LOG_INFO, LOG_TAG, msg)]"
  by (simp add: written_def logcat_LOGI)

subsection \<open>Reports of an error kind\<close>

text \<open>
  A bridge that raised an exception naming the kind, or wrote an error line naming it,
  would be seen to report it.
\<close>

lemma spec_error_reported_exception:
  "spec_error_reported ''InvalidHandle'' empty_env
     (empty_env\<lparr>pending_exception :=
        Some (''java/lang/IllegalArgumentException'', ''InvalidHandle: module handle 0'')\<rparr>)"
  by (simp add: spec_error_reported_def empty_env_def)

lemma spec_error_reported_LOGE:
  "spec_error_reported ''InstantiateError'' empty_env
     (LOGE ''instantiate failed: InstantiateError'' empty_env)"
  by (simp add: spec_error_reported_def empty_env_def LOGE_def written_def)

section \<open>The claims\<close>

subsection \<open>C1: the add scenario\<close>

text \<open>
  C1, as the specification states it: for a module exporting \<open>add(i32,i32)->i32\<close>,
  instantiated with the default configuration, \<open>call\<close> with the function name
  \<^verbatim>\<open>add\<close> and the args document \<^verbatim>\<open>[2,3]\<close> returns
  \<^verbatim>\<open>{"ok":true,"values":["5"]}\<close>, or the same document with the value as a number.
  On the code this fails. Loading the bytes of that module, instantiating what comes
  back with \<^verbatim>\<open>{}\<close> and calling \<open>add\<close> on what comes back from that gives a string
  that is not that document and is no success document with the value 5 in either
  encoding.
\<close>

theorem call_add_counterexample:
  \<open>fst (load_instantiate_call add_wasm default_config ''add'' ''[2,3]'' empty_world)
      \<noteq> ''{"ok":true,"values":["5"]}''
   \<and> spec_success_values
        (fst (load_instantiate_call add_wasm default_config ''add'' ''[2,3]'' empty_world))
      \<noteq> Some [JString ''5'']
   \<and> spec_success_values
        (fst (load_instantiate_call add_wasm default_config ''add'' ''[2,3]'' empty_world))
      \<noteq> Some [JNumber ''5'']\<close>
  by (simp add: fst_load_instantiate_call success_values_stub) (simp add: stub_result_def)

text \<open>
  C1, amended: whatever bytes are loaded (those of a module exporting
  \<open>add(i32,i32)->i32\<close> among them) and whatever configuration the instance is made
  with, \<open>call\<close> with the function name \<^verbatim>\<open>add\<close> and the args document \<^verbatim>\<open>[2,3]\<close>
  on the handle that \<open>instantiate\<close> returned gives the document
  \<^verbatim>\<open>{"result":"stub"}\<close>.
\<close>

theorem call_add_returns_stub:
  \<open>fst (load_instantiate_call bs cfg ''add'' ''[2,3]'' w) = ''{"result":"stub"}''\<close>
  by (simp add: fst_load_instantiate_call) (simp add: stub_result_def)

subsection \<open>C2: the shape of the result document\<close>

text \<open>
  C2, as the specification states it: for every instance handle, function name and
  args document, the string \<open>call\<close> returns is a JSON document of the shape
  \<^verbatim>\<open>{"ok": true, "values": [...]}\<close> or of the shape
  \<^verbatim>\<open>{"ok": false, "kind": string, "message": string}\<close>. On the code this fails: the
  string returned for the handle 0, the name \<^verbatim>\<open>add\<close> and the args \<^verbatim>\<open>[2,3]\<close>
  has neither shape.
\<close>

theorem call_shape_counterexample:
  "spec_result_shape (fst (call 0 ''add'' ''[2,3]'' empty_world)) = False"
  by (simp add: fst_call spec_result_shape_def success_values_stub failure_kind_stub)

text \<open>
  C2, amended: for every instance handle, function name and args document, the string
  \<open>call\<close> returns is the JSON object with the single member \<^verbatim>\<open>"result"\<close>, whose
  value is the string \<^verbatim>\<open>"stub"\<close>; no other top-level shape is ever produced.
\<close>

theorem call_result_is_stub_object:
  "parse_json (fst (call h f a w)) = Some (JObject [(''result'', JString ''stub'')])"
  by (simp add: fst_call parse_json_stub)

subsection \<open>C3: loading a module\<close>

text \<open>
  C3, as the specification states it: \<open>loadModuleFromBytes\<close> returns 0 exactly when
  loading fails, and on successful compilation returns a nonzero handle of a table slot
  that holds the module with reference count 1. On the code this fails: the bytes of
  the \<open>add\<close> module, which start with the header of a WebAssembly binary and are a
  complete valid module, come back as the handle 0.
\<close>

theorem loadModuleFromBytes_counterexample:
  "spec_wasm_header_ok add_wasm \<and> fst (loadModuleFromBytes add_wasm empty_world) = 0"
  by (simp add: fst_loadModuleFromBytes) (simp add: spec_wasm_header_ok_def add_wasm_def)

text \<open>
  C3, amended: for every byte input, \<open>loadModuleFromBytes\<close> returns 0, the reserved
  null handle; it never returns a nonzero handle and allocates no slot: all it changes
  in the world is one line more in the log.
\<close>

theorem loadModuleFromBytes_returns_zero:
  "loadModuleFromBytes bs w =
     (0, w\<lparr>logcat := logcat w @
        [(ANDROID_LOG_INFO, LOG_TAG, ''loadModuleFromBytes called (stub implementation)'')]\<rparr>)"
  by (simp add: loadModuleFromBytes_def LOGI_def)

subsection \<open>C4: instantiating a module\<close>

text \<open>
  C4, as the specification states it: for a valid module handle and configuration,
  \<open>instantiate\<close> returns a new nonzero instance handle in state Ready; it fails with
  InvalidHandle on a stale module handle and with InstantiateError otherwise, and never
  returns 0 when it succeeds. On the code the failing half fails. The module handle 0
  is the reserved null handle, valid for no object, so the claim has \<open>instantiate\<close>
  fail on it with one of the two kinds. The code returns 0 there, with the default
  configuration and from the empty environment, and reports no kind: no exception is
  pending afterwards, the two lines it wrote are informational, and neither
  InvalidHandle nor InstantiateError is named by an exception or by a line written.
\<close>

theorem instantiate_counterexample:
  "fst (instantiate 0 default_config empty_env) = 0
   \<and> pending_exception (snd (instantiate 0 default_config empty_env)) = None
   \<and> map fst (written empty_env (snd (instantiate 0 default_config empty_env)))
       = [ANDROID_LOG_INFO, ANDROID_LOG_INFO]
   \<and> spec_error_reported ''InvalidHandle'' empty_env
        (snd (instantiate 0 default_config empty_env)) = False
   \<and> spec_error_reported ''InstantiateError'' empty_env
        (snd (instantiate 0 default_config empty_env)) = False"
  by (simp add: instantiate_def GetStringUTFChars_def LOGI_def LOG_TAG_def written_def
      empty_env_def default_config_def spec_error_reported_def)

text \<open>
  C4, amended: for every module handle and every configuration string,
  \<open>instantiate\<close> returns 0 and creates no instance, and the failure carries no error
  kind: it raises no exception and writes no error line. All it changes is the log,
  by two informational lines, the second of which repeats the configuration string.
\<close>

theorem instantiate_returns_zero:
  fixes w :: "'a jni_env_scheme"
  shows
  "instantiate h cfg w =
     (0, w\<lparr>logcat := logcat w @
        [(ANDROID_LOG_INFO, LOG_TAG, ''instantiate called (stub implementation)''),
         (ANDROID_LOG_INFO, LOG_TAG, ''WASI config: '' @ cfg)]\<rparr>)
   \<and> pending_exception (snd (instantiate h cfg w)) = pending_exception w"
  by (simp add: instantiate_def GetStringUTFChars_def LOGI_def)

subsection \<open>C8: 64-bit values round-trip through decimal strings\<close>

text \<open>
  C8: for every signed 64-bit integer, encoding it as a decimal string and re-parsing
  that string gives back exactly the value, over the whole signed 64-bit range; and
  the same holds when the string travels in a success document. The encoder and the
  parser are the ones modelled from the specification above.
\<close>

theorem i64_decimal_roundtrip:
  "parse_i64 (encode_i64 v) = Some v
   \<and> parse_i64_document (encode_i64_document v) = Some v"
  by (simp add: parse_encode_i64 parse_i64_document_def success_values_document)

subsection \<open>C9: the result of call does not depend on its inputs\<close>

text \<open>
  C9: for every two invocations of \<open>call\<close>, whatever the instance handles, function
  names, args documents and worlds, the returned strings are the same, namely the
  constant \<^verbatim>\<open>{"result":"stub"}\<close>: the returned string tells nothing about any input.
\<close>

theorem call_noninterference:
  \<open>fst (call h1 f1 a1 w1) = fst (call h2 f2 a2 w2)
   \<and> fst (call h1 f1 a1 w1) = ''{"result":"stub"}''\<close>
  by (simp add: fst_call) (simp add: stub_result_def)

subsection \<open>C10: the destroy functions change nothing\<close>

text \<open>
  C10: for every handle, \<open>destroyInstance\<close> and \<open>destroyModule\<close> return and leave
  the state of the bridge as it was: the world beyond the log is unchanged, and every
  sequence of operations run afterwards, on any handles, returns what it would have
  returned and writes what it would have written without the destroy call.
\<close>

theorem destroy_changes_nothing:
  fixes w :: "'a jni_world_scheme"
  shows
  "jni_world.more (destroyInstance h w) = jni_world.more w
   \<and> jni_world.more (destroyModule h w) = jni_world.more w
   \<and> fst (jni_run ops (destroyInstance h w)) = fst (jni_run ops w)
   \<and> fst (jni_run ops (destroyModule h w)) = fst (jni_run ops w)
   \<and> written (destroyInstance h w) (snd (jni_run ops (destroyInstance h w)))
       = written w (snd (jni_run ops w))
   \<and> written (destroyModule h w) (snd (jni_run ops (destroyModule h w)))
       = written w (snd (jni_run ops w))"
  using jni_run_ret [of ops "destroyInstance h w" w]
    jni_run_ret [of ops "destroyModule h w" w]
    written_jni_run [of "destroyInstance h w" ops w]
    written_jni_run [of "destroyModule h w" ops w]
  by (simp add: destroyInstance_def destroyModule_def more_LOGI)

end
